theory Spec2Isabelle
  imports Complex_Main "HOL-Library.Word" "HOL-Library.AList" "HOL-Library.Log_Nat"
begin

section \<open>Strings\<close>

text \<open>
  A JavaScript string is a sequence of UTF-16 code units; \<open>length\<close> counts code units.
  The literals of the program are ASCII, written through \<open>ascii\<close>.
\<close>

type_synonym jsstring = "16 word list"

definition ascii :: "string \<Rightarrow> jsstring" where
  "ascii s = map (\<lambda>c. of_nat (of_char c)) s"

text \<open>
  \<open>String.prototype.trim\<close> strips the WhiteSpace and LineTerminator code points of
  ECMAScript from both ends: TAB, LF, VT, FF, CR, SP, NBSP, U+1680, U+2000..U+200A,
  U+2028, U+2029, U+202F, U+205F, U+3000 and U+FEFF.
\<close>

definition isWhiteSpace :: "16 word \<Rightarrow> bool" where
  "isWhiteSpace c \<longleftrightarrow>
     (0x0009 \<le> c \<and> c \<le> 0x000D) \<or> c = 0x0020 \<or> c = 0x00A0 \<or> c = 0x1680 \<or>
     (0x2000 \<le> c \<and> c \<le> 0x200A) \<or> c = 0x2028 \<or> c = 0x2029 \<or> c = 0x202F \<or>
     c = 0x205F \<or> c = 0x3000 \<or> c = 0xFEFF"

definition trim :: "jsstring \<Rightarrow> jsstring" where
  "trim s = rev (dropWhile isWhiteSpace (rev (dropWhile isWhiteSpace s)))"

text \<open>
  An optional property of a request object is \<open>None\<close> when it is \<open>undefined\<close>.
  A string is truthy when it is defined and not empty.
\<close>

definition truthy :: "jsstring option \<Rightarrow> bool" where
  "truthy v = (case v of None \<Rightarrow> False | Some s \<Rightarrow> s \<noteq> [])"

section \<open>The Task model\<close>

text \<open>The string enum \<open>TaskStatus\<close>: its members are strings at run time.\<close>

definition PENDING :: jsstring where "PENDING = ascii ''pending''"
definition IN_PROGRESS :: jsstring where "IN_PROGRESS = ascii ''in_progress''"
definition DONE :: jsstring where "DONE = ascii ''done''"

text \<open>\<open>Object.values(TaskStatus)\<close>\<close>

definition TaskStatus_values :: "jsstring list" where
  "TaskStatus_values = [PENDING, IN_PROGRESS, DONE]"

text \<open>
  \<open>CreateTaskDTO\<close> and \<open>UpdateTaskDTO\<close>: at run time both are objects whose
  \<open>title\<close>, \<open>description\<close> and \<open>status\<close> may be missing (the service checks
  for a missing title and description itself), so one record serves for both.
\<close>

record TaskDTO =
  title :: "jsstring option"
  description :: "jsstring option"
  status :: "jsstring option"

type_synonym CreateTaskDTO = TaskDTO
type_synonym UpdateTaskDTO = TaskDTO

text \<open>
  \<open>ITask\<close> and the class \<open>Task\<close> have the same fields. Dates are their time values
  (milliseconds since the epoch). The constructor copies \<open>data.title\<close> and
  \<open>data.description\<close> as they are, so these fields are undefined (\<open>None\<close>) when the
  data lacks them.
\<close>

record Task =
  id' :: jsstring
  title :: "jsstring option"
  description :: "jsstring option"
  status :: jsstring
  createdAt :: int
  updatedAt :: int

type_synonym ITask = Task

text \<open>
  The constructor. \<open>uuidv4()\<close> and the two \<open>new Date()\<close> are inputs from the
  environment: \<open>uuid\<close>, \<open>now1\<close> (read for \<open>createdAt\<close>) and \<open>now2\<close> (read next,
  for \<open>updatedAt\<close>).
\<close>

definition Task_new :: "CreateTaskDTO \<Rightarrow> jsstring \<Rightarrow> int \<Rightarrow> int \<Rightarrow> Task" where
  "Task_new data uuid now1 now2 =
     \<lparr> id' = uuid,
       title = TaskDTO.title data,
       description = TaskDTO.description data,
       status = (if truthy (TaskDTO.status data) then the (TaskDTO.status data) else PENDING),
       createdAt = now1,
       updatedAt = now2 \<rparr>"

text \<open>\<open>Task.update\<close>, with the clock reading \<open>now\<close>.\<close>

definition Task_update :: "Task \<Rightarrow> UpdateTaskDTO \<Rightarrow> int \<Rightarrow> Task" where
  "Task_update this data now =
     (let t1 = (case TaskDTO.title data of Some v \<Rightarrow> this\<lparr>title := Some v\<rparr> | None \<Rightarrow> this);
          t2 = (case TaskDTO.description data of Some v \<Rightarrow> t1\<lparr>description := Some v\<rparr> | None \<Rightarrow> t1);
          t3 = (case TaskDTO.status data of Some v \<Rightarrow> t2\<lparr>status := v\<rparr> | None \<Rightarrow> t2)
      in t3\<lparr>updatedAt := now\<rparr>)"

definition toJSON :: "Task \<Rightarrow> ITask" where
  "toJSON this =
     \<lparr> id' = id' this, title = title this, description = description this,
       status = status this, createdAt = createdAt this, updatedAt = updatedAt this \<rparr>"

text \<open>
  \<open>Task.fromJSON\<close> constructs a task (consuming a UUID and two clock readings) and then
  overwrites \<open>id\<close>, \<open>createdAt\<close> and \<open>updatedAt\<close>; \<open>new Date(d)\<close> of a date has the
  time value of \<open>d\<close>.
\<close>

definition fromJSON :: "ITask \<Rightarrow> jsstring \<Rightarrow> int \<Rightarrow> int \<Rightarrow> Task" where
  "fromJSON data uuid now1 now2 =
     (let task = Task_new \<lparr> TaskDTO.title = title data, TaskDTO.description = description data,
                            TaskDTO.status = Some (status data) \<rparr> uuid now1 now2
      in task\<lparr> id' := id' data, createdAt := createdAt data, updatedAt := updatedAt data \<rparr>)"

section \<open>The in-memory repository\<close>

text \<open>
  The \<open>Map<string, Task>\<close> as an association list in insertion order: \<open>set\<close> replaces
  the value of a present key in place and appends an absent one (\<open>AList.update\<close>),
  \<open>get\<close> is \<open>map_of\<close>, \<open>delete\<close> is \<open>AList.delete\<close>, \<open>size\<close> is the length.
\<close>

type_synonym repository = "(jsstring \<times> Task) list"

definition repository_create ::
  "repository \<Rightarrow> CreateTaskDTO \<Rightarrow> jsstring \<Rightarrow> int \<Rightarrow> int \<Rightarrow> Task \<times> repository" where
  "repository_create tasks data uuid now1 now2 =
     (let task = Task_new data uuid now1 now2
      in (task, AList.update (id' task) task tasks))"

definition findAll :: "repository \<Rightarrow> Task list" where
  "findAll tasks = map snd tasks"

definition findById :: "repository \<Rightarrow> jsstring \<Rightarrow> Task option" where
  "findById tasks i = map_of tasks i"

definition findByStatus :: "repository \<Rightarrow> jsstring \<Rightarrow> Task list" where
  "findByStatus tasks st = filter (\<lambda>task. status task = st) (findAll tasks)"

definition repository_update ::
  "repository \<Rightarrow> jsstring \<Rightarrow> UpdateTaskDTO \<Rightarrow> int \<Rightarrow> Task option \<times> repository" where
  "repository_update tasks i data now =
     (case findById tasks i of
        None \<Rightarrow> (None, tasks)
      | Some task \<Rightarrow>
          (let task' = Task_update task data now
           in (Some task', AList.update i task' tasks)))"

definition repository_delete :: "repository \<Rightarrow> jsstring \<Rightarrow> bool \<times> repository" where
  "repository_delete tasks i =
     (let exists = (map_of tasks i \<noteq> None)
      in (exists, if exists then AList.delete i tasks else tasks))"

definition count :: "repository \<Rightarrow> nat" where
  "count tasks = length tasks"

definition countByStatus :: "repository \<Rightarrow> jsstring \<Rightarrow> nat" where
  "countByStatus tasks st = length (findByStatus tasks st)"

section \<open>The service\<close>

datatype error_code =
  INVALID_TITLE | TITLE_TOO_LONG | INVALID_DESCRIPTION | DESCRIPTION_TOO_LONG
  | INVALID_STATUS | INVALID_ID | TASK_NOT_FOUND

text \<open>A thrown \<open>TaskError\<close>: its code and its HTTP status code.\<close>

datatype TaskError = TaskError (code: error_code) (statusCode: nat)

definition isValidStatus :: "jsstring \<Rightarrow> bool" where
  "isValidStatus st \<longleftrightarrow> st \<in> set TaskStatus_values"

text \<open>
  The validators return nothing or throw: \<open>None\<close> is a normal return, \<open>Some e\<close> is
  \<open>throw e\<close>. \<open>!data.title\<close> holds when the title is undefined or empty.
\<close>

definition validateCreateData :: "CreateTaskDTO \<Rightarrow> TaskError option" where
  "validateCreateData data =
     (if \<not> truthy (TaskDTO.title data) \<or> length (trim (the (TaskDTO.title data))) = 0
        then Some (TaskError INVALID_TITLE 400)
      else if length (the (TaskDTO.title data)) > 200
        then Some (TaskError TITLE_TOO_LONG 400)
      else if \<not> truthy (TaskDTO.description data) \<or> length (trim (the (TaskDTO.description data))) = 0
        then Some (TaskError INVALID_DESCRIPTION 400)
      else if length (the (TaskDTO.description data)) > 2000
        then Some (TaskError DESCRIPTION_TOO_LONG 400)
      else if truthy (TaskDTO.status data) \<and> \<not> isValidStatus (the (TaskDTO.status data))
        then Some (TaskError INVALID_STATUS 400)
      else None)"

definition validateUpdateData :: "UpdateTaskDTO \<Rightarrow> TaskError option" where
  "validateUpdateData data =
     (if TaskDTO.title data \<noteq> None \<and> length (trim (the (TaskDTO.title data))) = 0
        then Some (TaskError INVALID_TITLE 400)
      else if truthy (TaskDTO.title data) \<and> length (the (TaskDTO.title data)) > 200
        then Some (TaskError TITLE_TOO_LONG 400)
      else if TaskDTO.description data \<noteq> None \<and> length (trim (the (TaskDTO.description data))) = 0
        then Some (TaskError INVALID_DESCRIPTION 400)
      else if truthy (TaskDTO.description data) \<and> length (the (TaskDTO.description data)) > 2000
        then Some (TaskError DESCRIPTION_TOO_LONG 400)
      else if truthy (TaskDTO.status data) \<and> \<not> isValidStatus (the (TaskDTO.status data))
        then Some (TaskError INVALID_STATUS 400)
      else None)"

definition validateId :: "jsstring \<Rightarrow> TaskError option" where
  "validateId i =
     (if i = [] \<or> length (trim i) = 0 then Some (TaskError INVALID_ID 400) else None)"

definition validateStatus :: "jsstring \<Rightarrow> TaskError option" where
  "validateStatus st =
     (if \<not> isValidStatus st then Some (TaskError INVALID_STATUS 400) else None)"

text \<open>
  The operations return the outcome (\<open>Inl\<close> the thrown error) and the repository
  afterwards. A throw happens before the repository is written.
\<close>

definition createTask ::
  "repository \<Rightarrow> CreateTaskDTO \<Rightarrow> jsstring \<Rightarrow> int \<Rightarrow> int \<Rightarrow> (TaskError + Task) \<times> repository" where
  "createTask tasks data uuid now1 now2 =
     (case validateCreateData data of
        Some e \<Rightarrow> (Inl e, tasks)
      | None \<Rightarrow>
          (let (task, tasks') = repository_create tasks data uuid now1 now2
           in (Inr task, tasks')))"

definition getAllTasks :: "repository \<Rightarrow> Task list" where
  "getAllTasks tasks = findAll tasks"

definition getTaskById :: "repository \<Rightarrow> jsstring \<Rightarrow> TaskError + Task" where
  "getTaskById tasks i =
     (case validateId i of
        Some e \<Rightarrow> Inl e
      | None \<Rightarrow>
          (case findById tasks i of
             None \<Rightarrow> Inl (TaskError TASK_NOT_FOUND 404)
           | Some task \<Rightarrow> Inr task))"

definition getTasksByStatus :: "repository \<Rightarrow> jsstring \<Rightarrow> TaskError + Task list" where
  "getTasksByStatus tasks st =
     (case validateStatus st of
        Some e \<Rightarrow> Inl e
      | None \<Rightarrow> Inr (findByStatus tasks st))"

definition updateTask ::
  "repository \<Rightarrow> jsstring \<Rightarrow> UpdateTaskDTO \<Rightarrow> int \<Rightarrow> (TaskError + Task) \<times> repository" where
  "updateTask tasks i data now =
     (case validateId i of
        Some e \<Rightarrow> (Inl e, tasks)
      | None \<Rightarrow>
          (case validateUpdateData data of
             Some e \<Rightarrow> (Inl e, tasks)
           | None \<Rightarrow>
               (case repository_update tasks i data now of
                  (None, tasks') \<Rightarrow> (Inl (TaskError TASK_NOT_FOUND 404), tasks')
                | (Some task, tasks') \<Rightarrow> (Inr task, tasks'))))"

definition deleteTask :: "repository \<Rightarrow> jsstring \<Rightarrow> (TaskError + unit) \<times> repository" where
  "deleteTask tasks i =
     (case validateId i of
        Some e \<Rightarrow> (Inl e, tasks)
      | None \<Rightarrow>
          (case repository_delete tasks i of
             (False, tasks') \<Rightarrow> (Inl (TaskError TASK_NOT_FOUND 404), tasks')
           | (True, tasks') \<Rightarrow> (Inr (), tasks')))"

definition markTaskAsDone ::
  "repository \<Rightarrow> jsstring \<Rightarrow> int \<Rightarrow> (TaskError + Task) \<times> repository" where
  "markTaskAsDone tasks i now =
     updateTask tasks i \<lparr> TaskDTO.title = None, TaskDTO.description = None, TaskDTO.status = Some DONE \<rparr> now"

definition markTaskAsInProgress ::
  "repository \<Rightarrow> jsstring \<Rightarrow> int \<Rightarrow> (TaskError + Task) \<times> repository" where
  "markTaskAsInProgress tasks i now =
     updateTask tasks i \<lparr> TaskDTO.title = None, TaskDTO.description = None, TaskDTO.status = Some IN_PROGRESS \<rparr> now"

definition markTaskAsPending ::
  "repository \<Rightarrow> jsstring \<Rightarrow> int \<Rightarrow> (TaskError + Task) \<times> repository" where
  "markTaskAsPending tasks i now =
     updateTask tasks i \<lparr> TaskDTO.title = None, TaskDTO.description = None, TaskDTO.status = Some PENDING \<rparr> now"

section \<open>Numbers\<close>

text \<open>
  A JavaScript number is an IEEE 754 binary64 value; a finite one is modelled by the
  rational it denotes. \<open>binary64 x\<close> is the double nearest to the rational \<open>x\<close>
  (round to nearest, ties to even): with \<open>2 ^ e \<le> |x| < 2 ^ (e + 1)\<close>, the significand
  is \<open>|x| / 2 ^ (e - 52)\<close> rounded to an integer; below the normal range the exponent
  stays at \<open>-1074\<close>. Magnitudes from \<open>2 ^ 1024\<close> on (infinities) do not occur in the
  statistics, whose values lie between 0 and 10000.
\<close>

definition pow2 :: "int \<Rightarrow> rat" where
  "pow2 e = (if 0 \<le> e then 2 ^ nat e else 1 / 2 ^ nat (- e))"

text \<open>\<open>ilog2 x\<close> is the integer \<open>e\<close> with \<open>2 ^ e \<le> x < 2 ^ (e + 1)\<close>, for \<open>0 < x\<close>.\<close>

definition ilog2 :: "rat \<Rightarrow> int" where
  "ilog2 x = (let (p, q) = quotient_of x; e = bitlen p - bitlen q
              in if pow2 e \<le> x then e else e - 1)"

definition roundTiesToEven :: "rat \<Rightarrow> int" where
  "roundTiesToEven y =
     (let f = \<lfloor>y\<rfloor>; r = y - of_int f
      in if r < 1 / 2 then f else if 1 / 2 < r then f + 1 else if even f then f else f + 1)"

definition binary64 :: "rat \<Rightarrow> rat" where
  "binary64 x =
     (if x = 0 then 0
      else (let e = max (ilog2 \<bar>x\<bar> - 52) (- 1074)
            in sgn x * of_int (roundTiesToEven (\<bar>x\<bar> / pow2 e)) * pow2 e))"

text \<open>The operators \<open>*\<close> and \<open>/\<close> on numbers (the divisor is not 0 where the program divides).\<close>

definition js_mul :: "rat \<Rightarrow> rat \<Rightarrow> rat" where
  "js_mul x y = binary64 (x * y)"

definition js_div :: "rat \<Rightarrow> rat \<Rightarrow> rat" where
  "js_div x y = binary64 (x / y)"

text \<open>\<open>Math.round\<close>: the nearest integer, a tie going up.\<close>

definition Math_round :: "rat \<Rightarrow> rat" where
  "Math_round x = of_int \<lfloor>x + 1 / 2\<rfloor>"

section \<open>Statistics\<close>

text \<open>The counts are integers below \<open>2 ^ 53\<close>, which doubles hold exactly.\<close>

record TaskStatistics =
  total :: nat
  pending :: nat
  inProgress :: nat
  "done" :: nat
  completionRate :: rat

definition getStatistics :: "repository \<Rightarrow> TaskStatistics" where
  "getStatistics tasks =
     (let total = count tasks;
          pending = countByStatus tasks PENDING;
          inProgress = countByStatus tasks IN_PROGRESS;
          done = countByStatus tasks DONE;
          completionRate = (if total > 0 then js_mul (js_div (of_nat done) (of_nat total)) 100 else 0)
      in \<lparr> total = total, pending = pending, inProgress = inProgress, done = done,
           completionRate = js_div (Math_round (js_mul completionRate 100)) 100 \<rparr>)"

section \<open>Sequences of service calls\<close>

text \<open>
  A call of the service that writes, with what it takes from the environment: the UUID
  and the clock readings.
\<close>

datatype operation =
    CreateTask CreateTaskDTO jsstring int int
  | UpdateTask jsstring UpdateTaskDTO int
  | MarkTaskAsDone jsstring int
  | MarkTaskAsInProgress jsstring int
  | MarkTaskAsPending jsstring int
  | DeleteTask jsstring

fun perform :: "repository \<Rightarrow> operation \<Rightarrow> repository" where
  "perform tasks (CreateTask data uuid now1 now2) = snd (createTask tasks data uuid now1 now2)"
| "perform tasks (UpdateTask i data now) = snd (updateTask tasks i data now)"
| "perform tasks (MarkTaskAsDone i now) = snd (markTaskAsDone tasks i now)"
| "perform tasks (MarkTaskAsInProgress i now) = snd (markTaskAsInProgress tasks i now)"
| "perform tasks (MarkTaskAsPending i now) = snd (markTaskAsPending tasks i now)"
| "perform tasks (DeleteTask i) = snd (deleteTask tasks i)"

definition run :: "repository \<Rightarrow> operation list \<Rightarrow> repository" where
  "run tasks ops = foldl perform tasks ops"


section \<open>Vocabulary of the specification\<close>

text \<open>
  A value is missing or blank when it is undefined or its trimmed length is 0; it is
  longer than \<open>n\<close> when it is defined and has more than \<open>n\<close> code units.
\<close>

definition missing_or_blank :: "jsstring option \<Rightarrow> bool" where
  "missing_or_blank v = (case v of None \<Rightarrow> True | Some s \<Rightarrow> length (trim s) = 0)"

definition longer_than :: "nat \<Rightarrow> jsstring option \<Rightarrow> bool" where
  "longer_than n v = (case v of None \<Rightarrow> False | Some s \<Rightarrow> length s > n)"

text \<open>
  A valid creation input, by the validation rules of the specification: title and
  description present, not blank and within their length bounds; the status absent or
  one of the three enumerated values.
\<close>

definition valid_creation_input :: "CreateTaskDTO \<Rightarrow> bool" where
  "valid_creation_input data \<longleftrightarrow>
     \<not> missing_or_blank (TaskDTO.title data) \<and> \<not> longer_than 200 (TaskDTO.title data) \<and>
     \<not> missing_or_blank (TaskDTO.description data) \<and> \<not> longer_than 2000 (TaskDTO.description data) \<and>
     (case TaskDTO.status data of None \<Rightarrow> True | Some s \<Rightarrow> s \<in> {PENDING, IN_PROGRESS, DONE})"

text \<open>
  Rounding to 2 decimal places, half up, in exact arithmetic: the nearest multiple of
  0.01, a tie going up.
\<close>

definition round2_half_up :: "rat \<Rightarrow> rat" where
  "round2_half_up x = of_int \<lfloor>x * 100 + 1 / 2\<rfloor> / 100"

section \<open>Sample data\<close>

definition task1 :: Task where
  "task1 = \<lparr> id' = ascii ''id-1'', title = Some (ascii ''T1''), description = Some (ascii ''D''),
             status = PENDING, createdAt = 0, updatedAt = 0 \<rparr>"

definition four_tasks :: repository where
  "four_tasks =
     [(ascii ''id-1'', task1),
      (ascii ''id-2'', task1\<lparr> id' := ascii ''id-2'', title := Some (ascii ''T2'') \<rparr>),
      (ascii ''id-3'', task1\<lparr> id' := ascii ''id-3'', title := Some (ascii ''T3''), status := IN_PROGRESS \<rparr>),
      (ascii ''id-4'', task1\<lparr> id' := ascii ''id-4'', title := Some (ascii ''T4''), status := DONE \<rparr>)]"

text \<open>160 tasks, of which the first 23 are done and the others pending.\<close>

definition numbered_task :: "nat \<Rightarrow> Task" where
  "numbered_task n =
     \<lparr> id' = ascii ''id-'' @ [of_nat n], title = Some (ascii ''T''), description = Some (ascii ''D''),
       status = (if n < 23 then DONE else PENDING), createdAt = 0, updatedAt = 0 \<rparr>"

definition tasks_160 :: repository where
  "tasks_160 = map (\<lambda>n. (id' (numbered_task n), numbered_task n)) [0..<160]"

section \<open>Invariants\<close>


text \<open>A call that does not pass the empty string as the status of an update.\<close>

definition status_not_empty :: "operation \<Rightarrow> bool" where
  "status_not_empty op =
     (case op of UpdateTask i data now \<Rightarrow> TaskDTO.status data \<noteq> Some [] | _ \<Rightarrow> True)"

section \<open>Strings and statuses\<close>

lemma dropWhile_all: "(\<forall>x\<in>set (dropWhile P xs). P x) \<longleftrightarrow> (\<forall>x\<in>set xs. P x)"
  by (induction xs) auto

lemma trim_length_0: "length (trim s) = 0 \<longleftrightarrow> (\<forall>c\<in>set s. isWhiteSpace c)"
  by (simp add: trim_def dropWhile_all)

lemma trim_Nil: "trim [] = []"
  by (simp add: trim_def)

lemma status_distinct: "PENDING \<noteq> IN_PROGRESS" "PENDING \<noteq> DONE" "IN_PROGRESS \<noteq> DONE"
  "PENDING \<noteq> []" "IN_PROGRESS \<noteq> []" "DONE \<noteq> []"
  by (simp_all add: PENDING_def IN_PROGRESS_def DONE_def ascii_def)

lemma isValidStatus_iff: "isValidStatus s \<longleftrightarrow> s = PENDING \<or> s = IN_PROGRESS \<or> s = DONE"
  by (auto simp: isValidStatus_def TaskStatus_values_def)

lemma isValidStatus_nonempty: "isValidStatus s \<Longrightarrow> s \<noteq> []"
  using status_distinct by (auto simp: isValidStatus_iff)

lemma validateCreateData_cases:
  "validateCreateData data =
     (if missing_or_blank (TaskDTO.title data) then Some (TaskError INVALID_TITLE 400)
      else if longer_than 200 (TaskDTO.title data) then Some (TaskError TITLE_TOO_LONG 400)
      else if missing_or_blank (TaskDTO.description data) then Some (TaskError INVALID_DESCRIPTION 400)
      else if longer_than 2000 (TaskDTO.description data) then Some (TaskError DESCRIPTION_TOO_LONG 400)
      else if truthy (TaskDTO.status data) \<and> \<not> isValidStatus (the (TaskDTO.status data))
        then Some (TaskError INVALID_STATUS 400)
      else None)"
  by (cases "TaskDTO.title data"; cases "TaskDTO.description data")
     (auto simp: validateCreateData_def truthy_def trim_Nil missing_or_blank_def longer_than_def)

lemma createTask_result:
  "fst (createTask tasks data uuid now1 now2) =
     (case validateCreateData data of Some e \<Rightarrow> Inl e | None \<Rightarrow> Inr (Task_new data uuid now1 now2))"
  by (simp add: createTask_def repository_create_def Let_def split: option.splits)

section \<open>Creation\<close>

text \<open>
  Claim C3, amended. \<open>createTask\<close> checks in a fixed order and reports the first
  failure only: it fails with \<open>INVALID_TITLE\<close> exactly when the title is missing or
  blank; with \<open>TITLE_TOO_LONG\<close> exactly when the title is not blank and has more than
  200 code units; with \<open>INVALID_DESCRIPTION\<close> exactly when the title passes both
  checks and the description is missing or blank; with \<open>DESCRIPTION_TOO_LONG\<close>
  exactly when title and description pass the earlier checks and the description has
  more than 2000 code units; and when all four checks pass and the status is absent or
  one of the three enumerated values, it succeeds with the task the constructor builds.
\<close>

theorem createTask_validation_order:
  "((fst (createTask tasks data uuid now1 now2) = Inl (TaskError INVALID_TITLE 400)) =
      missing_or_blank (TaskDTO.title data)) \<and>
   ((fst (createTask tasks data uuid now1 now2) = Inl (TaskError TITLE_TOO_LONG 400)) =
      (\<not> missing_or_blank (TaskDTO.title data) \<and> longer_than 200 (TaskDTO.title data))) \<and>
   ((fst (createTask tasks data uuid now1 now2) = Inl (TaskError INVALID_DESCRIPTION 400)) =
      (\<not> missing_or_blank (TaskDTO.title data) \<and> \<not> longer_than 200 (TaskDTO.title data) \<and>
       missing_or_blank (TaskDTO.description data))) \<and>
   ((fst (createTask tasks data uuid now1 now2) = Inl (TaskError DESCRIPTION_TOO_LONG 400)) =
      (\<not> missing_or_blank (TaskDTO.title data) \<and> \<not> longer_than 200 (TaskDTO.title data) \<and>
       \<not> missing_or_blank (TaskDTO.description data) \<and> longer_than 2000 (TaskDTO.description data))) \<and>
   (\<not> missing_or_blank (TaskDTO.title data) \<and> \<not> longer_than 200 (TaskDTO.title data) \<and>
    \<not> missing_or_blank (TaskDTO.description data) \<and> \<not> longer_than 2000 (TaskDTO.description data) \<and>
    (TaskDTO.status data = None \<or> (\<exists>s. TaskDTO.status data = Some s \<and> isValidStatus s)) \<longrightarrow>
    fst (createTask tasks data uuid now1 now2) = Inr (Task_new data uuid now1 now2))"
  unfolding createTask_result validateCreateData_cases by (auto simp: truthy_def)

text \<open>
  The theorem at \<open>"a".repeat(201)\<close> with description \<open>"d"\<close>, and at a valid
  input without a status.
\<close>

theorem createTask_validation_order_witness:
  "fst (createTask [] \<lparr> TaskDTO.title = Some (replicate 201 0x61), TaskDTO.description = Some (ascii ''d''),
                        TaskDTO.status = None \<rparr> (ascii ''id-1'') 0 0)
     = Inl (TaskError TITLE_TOO_LONG 400) \<and>
   fst (createTask [] \<lparr> TaskDTO.title = Some (ascii ''T1''), TaskDTO.description = Some (ascii ''D''),
                        TaskDTO.status = None \<rparr> (ascii ''id-1'') 0 0)
     = Inr \<lparr> id' = ascii ''id-1'', title = Some (ascii ''T1''), description = Some (ascii ''D''),
             status = PENDING, createdAt = 0, updatedAt = 0 \<rparr>"
  using createTask_validation_order [of "[]" "\<lparr> TaskDTO.title = Some (replicate 201 0x61),
          TaskDTO.description = Some (ascii ''d''), TaskDTO.status = None \<rparr>" "ascii ''id-1''" 0 0]
        createTask_validation_order [of "[]" "\<lparr> TaskDTO.title = Some (ascii ''T1''),
          TaskDTO.description = Some (ascii ''D''), TaskDTO.status = None \<rparr>" "ascii ''id-1''" 0 0]
  by (simp add: missing_or_blank_def longer_than_def trim_def isWhiteSpace_def ascii_def
        Task_new_def truthy_def)

text \<open>
  Claim C3 as stated fails: with the title and the description both missing, the
  description is missing, yet the error is not \<open>INVALID_DESCRIPTION\<close> (the title
  check comes first).
\<close>

theorem createTask_description_counterexample:
  "missing_or_blank (TaskDTO.description \<lparr> TaskDTO.title = None, TaskDTO.description = None, TaskDTO.status = None \<rparr>) \<and>
   fst (createTask [] \<lparr> TaskDTO.title = None, TaskDTO.description = None, TaskDTO.status = None \<rparr>
          (ascii ''id-1'') 0 0) \<noteq> Inl (TaskError INVALID_DESCRIPTION 400)"
  by (simp add: missing_or_blank_def createTask_def validateCreateData_def truthy_def)

lemma valid_creation_input_validate:
  "valid_creation_input data \<Longrightarrow> validateCreateData data = None"
  unfolding validateCreateData_cases
  by (auto simp: valid_creation_input_def isValidStatus_iff truthy_def split: option.splits)

text \<open>
  Claim C4. For every valid creation input, \<open>createTask\<close> returns a task whose
  status is \<open>pending\<close> when the status is omitted and the given status otherwise.
\<close>

theorem createTask_status_default:
  assumes "valid_creation_input data"
  shows "\<exists>task. fst (createTask tasks data uuid now1 now2) = Inr task \<and>
           status task = (case TaskDTO.status data of None \<Rightarrow> PENDING | Some s \<Rightarrow> s)"
proof -
  have ok: "validateCreateData data = None"
    using assms by (rule valid_creation_input_validate)
  have st: "status (Task_new data uuid now1 now2) =
              (case TaskDTO.status data of None \<Rightarrow> PENDING | Some s \<Rightarrow> s)"
    using assms status_distinct
    by (auto simp: Task_new_def truthy_def valid_creation_input_def split: option.splits)
  show ?thesis
    using ok st by (simp add: createTask_result)
qed

text \<open>The theorem at a valid input with status \<open>in_progress\<close>.\<close>

theorem createTask_status_default_witness:
  "valid_creation_input \<lparr> TaskDTO.title = Some (ascii ''T3''), TaskDTO.description = Some (ascii ''D''),
                           TaskDTO.status = Some IN_PROGRESS \<rparr> \<and>
   (\<exists>task. fst (createTask [] \<lparr> TaskDTO.title = Some (ascii ''T3''), TaskDTO.description = Some (ascii ''D''),
                                 TaskDTO.status = Some IN_PROGRESS \<rparr> (ascii ''id-3'') 5 5) = Inr task \<and>
           status task = IN_PROGRESS)"
proof -
  have v: "valid_creation_input \<lparr> TaskDTO.title = Some (ascii ''T3''),
             TaskDTO.description = Some (ascii ''D''), TaskDTO.status = Some IN_PROGRESS \<rparr>"
    by (simp add: valid_creation_input_def missing_or_blank_def longer_than_def trim_def
          isWhiteSpace_def ascii_def)
  show ?thesis
    using v createTask_status_default [OF v, of "[]" "ascii ''id-3''" 5 5] by simp
qed

section \<open>Updating and deleting\<close>

lemma findById_None_iff: "findById tasks i = None \<longleftrightarrow> i \<notin> fst ` set tasks"
  by (simp add: findById_def map_of_eq_None_iff)

text \<open>
  Claim C6, amended. For every id not present in the repository and every partial that
  passes \<open>validateUpdateData\<close> (the empty partial included), the repository's
  \<open>update\<close> returns absent and leaves the repository as it is; and when the id
  passes \<open>validateId\<close> (it is not blank), \<open>updateTask\<close> fails with
  \<open>TASK_NOT_FOUND\<close>.
\<close>

theorem update_absent_id:
  assumes "i \<notin> fst ` set tasks" and "validateUpdateData data = None"
  shows "repository_update tasks i data now = (None, tasks) \<and>
         (validateId i = None \<longrightarrow>
            updateTask tasks i data now = (Inl (TaskError TASK_NOT_FOUND 404), tasks))"
proof -
  have "findById tasks i = None"
    using assms(1) by (simp add: findById_None_iff)
  then show ?thesis
    using assms(2) by (simp add: repository_update_def updateTask_def)
qed

text \<open>The theorem at the empty repository, an unknown id and the empty partial.\<close>

theorem update_absent_id_witness:
  "ascii ''id-inexistente'' \<notin> fst ` set ([] :: repository) \<and>
   validateUpdateData \<lparr> TaskDTO.title = None, TaskDTO.description = None, TaskDTO.status = None \<rparr> = None \<and>
   validateId (ascii ''id-inexistente'') = None \<and>
   repository_update [] (ascii ''id-inexistente'')
     \<lparr> TaskDTO.title = None, TaskDTO.description = None, TaskDTO.status = None \<rparr> 7 = (None, []) \<and>
   updateTask [] (ascii ''id-inexistente'')
     \<lparr> TaskDTO.title = None, TaskDTO.description = None, TaskDTO.status = None \<rparr> 7
     = (Inl (TaskError TASK_NOT_FOUND 404), [])"
proof -
  have a: "ascii ''id-inexistente'' \<notin> fst ` set ([] :: repository)" by simp
  have b: "validateUpdateData \<lparr> TaskDTO.title = None, TaskDTO.description = None, TaskDTO.status = None \<rparr> = None"
    by (simp add: validateUpdateData_def truthy_def)
  have c: "validateId (ascii ''id-inexistente'') = None"
    by (simp add: validateId_def trim_def isWhiteSpace_def ascii_def)
  show ?thesis
    using a b c update_absent_id [OF a b, of 7] by simp
qed

text \<open>
  Claim C6 as stated fails: the empty id is not present in the empty repository and the
  empty partial passes validation, yet \<open>updateTask\<close> fails with \<open>INVALID_ID\<close>,
  not \<open>TASK_NOT_FOUND\<close>.
\<close>

theorem update_blank_id_counterexample:
  "[] \<notin> fst ` set ([] :: repository) \<and>
   validateUpdateData \<lparr> TaskDTO.title = None, TaskDTO.description = None, TaskDTO.status = None \<rparr> = None \<and>
   fst (updateTask [] [] \<lparr> TaskDTO.title = None, TaskDTO.description = None, TaskDTO.status = None \<rparr> 7)
     = Inl (TaskError INVALID_ID 400) \<and>
   fst (updateTask [] [] \<lparr> TaskDTO.title = None, TaskDTO.description = None, TaskDTO.status = None \<rparr> 7)
     \<noteq> Inl (TaskError TASK_NOT_FOUND 404)"
  by (simp add: validateUpdateData_def truthy_def updateTask_def validateId_def)

lemma repository_delete_eq:
  "repository_delete tasks i = (i \<in> fst ` set tasks, AList.delete i tasks)"
  by (auto simp: repository_delete_def Let_def map_of_eq_None_iff)

lemma deleteTask_eq:
  "validateId i = None \<Longrightarrow>
   deleteTask tasks i =
     (if i \<in> fst ` set tasks then (Inr (), AList.delete i tasks)
      else (Inl (TaskError TASK_NOT_FOUND 404), tasks))"
  by (simp add: deleteTask_def repository_delete_eq)

lemma getTaskById_deleted:
  "validateId i = None \<Longrightarrow> getTaskById (AList.delete i tasks) i = Inl (TaskError TASK_NOT_FOUND 404)"
  by (simp add: getTaskById_def findById_def AList.delete_conv')

text \<open>
  Claim C7, amended. For every id, the repository's \<open>delete\<close> returns true exactly
  when a task with that id existed, and the repository afterwards is the one before
  without that id. For every id that passes \<open>validateId\<close> (its trimmed length is not
  0), \<open>deleteTask\<close> fails with \<open>TASK_NOT_FOUND\<close> exactly when the repository
  returns false, and after a successful \<open>deleteTask\<close>, \<open>getTaskById\<close> of the same
  id fails with \<open>TASK_NOT_FOUND\<close>.
\<close>

theorem delete_then_get:
  "fst (repository_delete tasks i) = (i \<in> fst ` set tasks) \<and>
   map_of (snd (repository_delete tasks i)) = (map_of tasks)(i := None) \<and>
   (validateId i = None \<longrightarrow>
      (fst (deleteTask tasks i) = Inl (TaskError TASK_NOT_FOUND 404)) = (\<not> fst (repository_delete tasks i)) \<and>
      (fst (deleteTask tasks i) = Inr () \<longrightarrow>
         snd (deleteTask tasks i) = snd (repository_delete tasks i) \<and>
         getTaskById (snd (deleteTask tasks i)) i = Inl (TaskError TASK_NOT_FOUND 404)))"
proof (intro conjI impI)
  show "fst (repository_delete tasks i) = (i \<in> fst ` set tasks)"
    by (simp add: repository_delete_eq)
  show "map_of (snd (repository_delete tasks i)) = (map_of tasks)(i := None)"
    by (simp add: repository_delete_eq AList.delete_conv')
next
  assume v: "validateId i = None"
  show "(fst (deleteTask tasks i) = Inl (TaskError TASK_NOT_FOUND 404)) = (\<not> fst (repository_delete tasks i))"
    by (simp add: deleteTask_eq [OF v] repository_delete_eq)
  assume ok: "fst (deleteTask tasks i) = Inr ()"
  then have present: "i \<in> fst ` set tasks"
    by (simp add: deleteTask_eq [OF v] split: if_splits)
  then show "snd (deleteTask tasks i) = snd (repository_delete tasks i)"
    by (simp add: deleteTask_eq [OF v] repository_delete_eq)
  from present show "getTaskById (snd (deleteTask tasks i)) i = Inl (TaskError TASK_NOT_FOUND 404)"
    by (simp add: deleteTask_eq [OF v] getTaskById_deleted [OF v])
qed

text \<open>The theorem at a repository holding one task, and at the empty repository.\<close>

theorem delete_then_get_witness:
  "validateId (ascii ''id-1'') = None \<and>
   deleteTask [(ascii ''id-1'', task1)] (ascii ''id-1'') = (Inr (), []) \<and>
   getTaskById [] (ascii ''id-1'') = Inl (TaskError TASK_NOT_FOUND 404) \<and>
   fst (deleteTask [] (ascii ''id-1'')) = Inl (TaskError TASK_NOT_FOUND 404)"
proof -
  have v: "validateId (ascii ''id-1'') = None"
    by (simp add: validateId_def trim_def isWhiteSpace_def ascii_def)
  have d: "deleteTask [(ascii ''id-1'', task1)] (ascii ''id-1'') = (Inr (), [])"
    by (simp add: deleteTask_def v repository_delete_def)
  show ?thesis
    using v d delete_then_get [of "[(ascii ''id-1'', task1)]" "ascii ''id-1''"]
      delete_then_get [of "[]" "ascii ''id-1''"]
    by (simp add: repository_delete_def)
qed

text \<open>
  Claim C7 as stated fails: the id \<open>" "\<close> is not empty and the repository returns
  false for it, yet \<open>deleteTask\<close> fails with \<open>INVALID_ID\<close>, not
  \<open>TASK_NOT_FOUND\<close>.
\<close>

theorem delete_blank_id_counterexample:
  "ascii '' '' \<noteq> [] \<and>
   fst (repository_delete [] (ascii '' '')) = False \<and>
   fst (deleteTask [] (ascii '' '')) = Inl (TaskError INVALID_ID 400) \<and>
   fst (deleteTask [] (ascii '' '')) \<noteq> Inl (TaskError TASK_NOT_FOUND 404)"
  by (simp add: repository_delete_def deleteTask_def validateId_def trim_def isWhiteSpace_def ascii_def)

lemma validateUpdateData_status_only:
  "isValidStatus s \<Longrightarrow>
   validateUpdateData \<lparr> TaskDTO.title = None, TaskDTO.description = None, TaskDTO.status = Some s \<rparr> = None"
  by (simp add: validateUpdateData_def truthy_def)

lemma Task_update_status_only:
  "Task_update t \<lparr> TaskDTO.title = None, TaskDTO.description = None, TaskDTO.status = Some s \<rparr> now
     = t\<lparr> status := s, updatedAt := now \<rparr>"
  by (simp add: Task_update_def)

lemma map_fst_update_present:
  "map_of al k = Some v \<Longrightarrow> map fst (AList.update k v' al) = map fst al"
  by (induction al) (auto split: if_splits)

text \<open>
  Claim C8. For every task present in the repository (its id, generated by
  \<open>uuidv4\<close>, passes \<open>validateId\<close>) and every valid status \<open>s\<close>,
  \<open>updateTask(id, {status: s})\<close> succeeds, sets that task's status to \<open>s\<close>, leaves
  its title, description, id and \<open>createdAt\<close> unchanged, and leaves every other
  task of the repository, and the order of the keys, unchanged.
\<close>

theorem updateTask_status_frame:
  assumes "map_of tasks i = Some t" and "validateId i = None" and "isValidStatus s"
  shows "\<exists>t' tasks'.
           updateTask tasks i \<lparr> TaskDTO.title = None, TaskDTO.description = None, TaskDTO.status = Some s \<rparr> now
             = (Inr t', tasks') \<and>
           status t' = s \<and> title t' = title t \<and> description t' = description t \<and>
           id' t' = id' t \<and> createdAt t' = createdAt t \<and>
           map_of tasks' i = Some t' \<and>
           (\<forall>j. j \<noteq> i \<longrightarrow> map_of tasks' j = map_of tasks j) \<and>
           map fst tasks' = map fst tasks"
proof -
  let ?t' = "t\<lparr> status := s, updatedAt := now \<rparr>"
  let ?tasks' = "AList.update i ?t' tasks"
  have "updateTask tasks i \<lparr> TaskDTO.title = None, TaskDTO.description = None, TaskDTO.status = Some s \<rparr> now
          = (Inr ?t', ?tasks')"
    using assms
    by (simp add: updateTask_def validateUpdateData_status_only repository_update_def
          findById_def Task_update_status_only Let_def)
  moreover have "map_of ?tasks' i = Some ?t'"
    by (simp add: AList.update_conv')
  moreover have "\<forall>j. j \<noteq> i \<longrightarrow> map_of ?tasks' j = map_of tasks j"
    by (simp add: AList.update_conv')
  moreover have "map fst ?tasks' = map fst tasks"
    using assms(1) by (rule map_fst_update_present)
  ultimately show ?thesis by simp
qed

text \<open>The theorem at a repository holding one pending task, marked done.\<close>

theorem updateTask_status_frame_witness:
  "map_of [(ascii ''id-1'', task1)] (ascii ''id-1'') = Some task1 \<and>
   validateId (ascii ''id-1'') = None \<and> isValidStatus DONE \<and>
   (\<exists>t' tasks'.
      updateTask [(ascii ''id-1'', task1)] (ascii ''id-1'')
        \<lparr> TaskDTO.title = None, TaskDTO.description = None, TaskDTO.status = Some DONE \<rparr> 9 = (Inr t', tasks') \<and>
      status t' = DONE \<and> title t' = title task1 \<and> description t' = description task1 \<and>
      id' t' = id' task1 \<and> createdAt t' = createdAt task1 \<and>
      map_of tasks' (ascii ''id-1'') = Some t' \<and>
      (\<forall>j. j \<noteq> ascii ''id-1'' \<longrightarrow> map_of tasks' j = map_of [(ascii ''id-1'', task1)] j) \<and>
      map fst tasks' = map fst [(ascii ''id-1'', task1)])"
proof -
  have a: "map_of [(ascii ''id-1'', task1)] (ascii ''id-1'') = Some task1" by simp
  have b: "validateId (ascii ''id-1'') = None"
    by (simp add: validateId_def trim_def isWhiteSpace_def ascii_def)
  have c: "isValidStatus DONE" by (simp add: isValidStatus_iff)
  show ?thesis
    using a b c updateTask_status_frame [OF a b c, of 9] by blast
qed

section \<open>Serialisation\<close>

text \<open>
  \<open>Task.fromJSON(t.toJSON())\<close> has the id, title, description, \<open>createdAt\<close> and
  \<open>updatedAt\<close> of \<open>t\<close>, whatever UUID and clock readings the constructor consumed.
\<close>

lemma fromJSON_toJSON_fields:
  "id' (fromJSON (toJSON t) uuid now1 now2) = id' t \<and>
   title (fromJSON (toJSON t) uuid now1 now2) = title t \<and>
   description (fromJSON (toJSON t) uuid now1 now2) = description t \<and>
   createdAt (fromJSON (toJSON t) uuid now1 now2) = createdAt t \<and>
   updatedAt (fromJSON (toJSON t) uuid now1 now2) = updatedAt t"
  by (simp add: fromJSON_def toJSON_def Task_new_def)

text \<open>
  On a task whose status is one of the three enumerated values, the round trip is the
  identity.
\<close>

lemma fromJSON_toJSON_enumerated:
  assumes "isValidStatus (status t)"
  shows "fromJSON (toJSON t) uuid now1 now2 = t"
proof -
  have "status t \<noteq> []"
    using assms by (rule isValidStatus_nonempty)
  then show ?thesis
    by (simp add: fromJSON_def toJSON_def Task_new_def truthy_def)
qed

section \<open>Statistics: the counts\<close>

lemma length_filter_three:
  "\<forall>x\<in>set xs. f x = a \<or> f x = b \<or> f x = c \<Longrightarrow> a \<noteq> b \<Longrightarrow> a \<noteq> c \<Longrightarrow> b \<noteq> c \<Longrightarrow>
   length xs = length (filter (\<lambda>x. f x = a) xs) + length (filter (\<lambda>x. f x = b) xs)
             + length (filter (\<lambda>x. f x = c) xs)"
  by (induction xs) auto

lemma getStatistics_counts:
  "total (getStatistics tasks) = count tasks"
  "pending (getStatistics tasks) = countByStatus tasks PENDING"
  "inProgress (getStatistics tasks) = countByStatus tasks IN_PROGRESS"
  "done (getStatistics tasks) = countByStatus tasks DONE"
  by (simp_all add: getStatistics_def Let_def)

text \<open>
  Claim C10. For every repository in which the status of every task is one of the three
  enumerated values, the result of \<open>getStatistics\<close> satisfies
  \<open>total = pending + inProgress + done\<close>: \<open>count()\<close> is the sum of
  \<open>countByStatus\<close> over the three statuses.
\<close>

theorem statistics_total_is_sum:
  assumes "\<forall>t\<in>set (findAll tasks). isValidStatus (status t)"
  shows "total (getStatistics tasks) =
           pending (getStatistics tasks) + inProgress (getStatistics tasks) + done (getStatistics tasks) \<and>
         count tasks = countByStatus tasks PENDING + countByStatus tasks IN_PROGRESS + countByStatus tasks DONE"
proof -
  have "\<forall>t\<in>set (findAll tasks). status t = PENDING \<or> status t = IN_PROGRESS \<or> status t = DONE"
    using assms by (simp add: isValidStatus_iff)
  then have "length (findAll tasks) =
      length (filter (\<lambda>t. status t = PENDING) (findAll tasks))
    + length (filter (\<lambda>t. status t = IN_PROGRESS) (findAll tasks))
    + length (filter (\<lambda>t. status t = DONE) (findAll tasks))"
    by (rule length_filter_three) (rule status_distinct)+
  then have "count tasks = countByStatus tasks PENDING + countByStatus tasks IN_PROGRESS + countByStatus tasks DONE"
    by (simp add: count_def countByStatus_def findByStatus_def findAll_def)
  then show ?thesis
    by (simp add: getStatistics_counts)
qed

lemma four_tasks_statuses:
  "map status (findAll four_tasks) = [PENDING, PENDING, IN_PROGRESS, DONE]"
  by (simp add: four_tasks_def findAll_def task1_def)

text \<open>The theorem at four tasks with statuses pending, pending, in progress and done.\<close>

theorem statistics_total_is_sum_witness:
  "list_all (\<lambda>t. isValidStatus (status t)) (findAll four_tasks) \<and>
   total (getStatistics four_tasks) = 4 \<and>
   pending (getStatistics four_tasks) + inProgress (getStatistics four_tasks) + done (getStatistics four_tasks) = 4"
proof -
  have v: "\<forall>t\<in>set (findAll four_tasks). isValidStatus (status t)"
    by (simp add: four_tasks_def findAll_def task1_def isValidStatus_iff)
  have "total (getStatistics four_tasks) = 4"
    by (simp add: getStatistics_counts count_def four_tasks_def)
  then show ?thesis
    using v statistics_total_is_sum [OF v] by (simp add: list_all_iff)
qed

section \<open>Sequences of calls: the status of stored tasks\<close>

lemma run_create_task1:
  "run [] [CreateTask \<lparr> TaskDTO.title = Some (ascii ''T1''), TaskDTO.description = Some (ascii ''D''),
                        TaskDTO.status = None \<rparr> (ascii ''id-1'') 0 0] = [(ascii ''id-1'', task1)]"
  by (simp add: run_def createTask_def validateCreateData_def truthy_def trim_def isWhiteSpace_def
        ascii_def repository_create_def Task_new_def task1_def Let_def)

lemma validateId_id1: "validateId (ascii ''id-1'') = None"
  by (simp add: validateId_def trim_def isWhiteSpace_def ascii_def)

lemma updateTask_task1_empty_status:
  "updateTask [(ascii ''id-1'', task1)] (ascii ''id-1'')
     \<lparr> TaskDTO.title = None, TaskDTO.description = None, TaskDTO.status = Some [] \<rparr> 1
   = (Inr (task1\<lparr> status := [], updatedAt := 1 \<rparr>),
      [(ascii ''id-1'', task1\<lparr> status := [], updatedAt := 1 \<rparr>)])"
  by (simp add: updateTask_def validateId_id1 validateUpdateData_def truthy_def repository_update_def
        findById_def Task_update_def Let_def)

lemma run_create_update_empty_status:
  "run [] [CreateTask \<lparr> TaskDTO.title = Some (ascii ''T1''), TaskDTO.description = Some (ascii ''D''),
                        TaskDTO.status = None \<rparr> (ascii ''id-1'') 0 0,
           UpdateTask (ascii ''id-1'')
             \<lparr> TaskDTO.title = None, TaskDTO.description = None, TaskDTO.status = Some [] \<rparr> 1]
     = [(ascii ''id-1'', task1\<lparr> status := [], updatedAt := 1 \<rparr>)]"
proof -
  have "run [] [CreateTask \<lparr> TaskDTO.title = Some (ascii ''T1''), TaskDTO.description = Some (ascii ''D''),
                        TaskDTO.status = None \<rparr> (ascii ''id-1'') 0 0,
           UpdateTask (ascii ''id-1'')
             \<lparr> TaskDTO.title = None, TaskDTO.description = None, TaskDTO.status = Some [] \<rparr> 1]
        = perform (run [] [CreateTask \<lparr> TaskDTO.title = Some (ascii ''T1''),
                      TaskDTO.description = Some (ascii ''D''), TaskDTO.status = None \<rparr> (ascii ''id-1'') 0 0])
            (UpdateTask (ascii ''id-1'')
               \<lparr> TaskDTO.title = None, TaskDTO.description = None, TaskDTO.status = Some [] \<rparr> 1)"
    by (simp add: run_def)
  then show ?thesis
    by (simp add: run_create_task1 updateTask_task1_empty_status)
qed

text \<open>
  Claim C1 fails on the code. After \<open>createTask({title: "T1", description: "D"})\<close>,
  the call \<open>updateTask(id, {status: ""})\<close> passes \<open>validateUpdateData\<close> (the empty
  string is falsy) and \<open>Task.update\<close> stores it: the repository then holds a task whose
  status is the empty string, which is none of the three enumerated values.
\<close>

theorem empty_status_is_stored:
  "run [] [CreateTask \<lparr> TaskDTO.title = Some (ascii ''T1''), TaskDTO.description = Some (ascii ''D''),
                        TaskDTO.status = None \<rparr> (ascii ''id-1'') 0 0,
           UpdateTask (ascii ''id-1'')
             \<lparr> TaskDTO.title = None, TaskDTO.description = None, TaskDTO.status = Some [] \<rparr> 1]
     = [(ascii ''id-1'', task1\<lparr> status := [], updatedAt := 1 \<rparr>)] \<and>
   \<not> isValidStatus (status (task1\<lparr> status := [], updatedAt := 1 \<rparr>))"
proof -
  have "\<not> isValidStatus []"
    using isValidStatus_nonempty by blast
  then show ?thesis
    by (simp add: run_create_update_empty_status)
qed

text \<open>
  Claim C9 fails on the code, through the same defect. The task that this sequence of
  calls leaves in the repository has the empty string as status, and
  \<open>Task.fromJSON\<close> of its \<open>toJSON\<close> goes through the constructor, whose
  \<open>data.status || PENDING\<close> makes the status \<open>pending\<close>: the status of the
  deserialised task is not the status of the task.
\<close>

theorem fromJSON_resets_empty_status:
  "findById (run [] [CreateTask \<lparr> TaskDTO.title = Some (ascii ''T1''), TaskDTO.description = Some (ascii ''D''),
                        TaskDTO.status = None \<rparr> (ascii ''id-1'') 0 0,
           UpdateTask (ascii ''id-1'')
             \<lparr> TaskDTO.title = None, TaskDTO.description = None, TaskDTO.status = Some [] \<rparr> 1])
      (ascii ''id-1'') = Some (task1\<lparr> status := [], updatedAt := 1 \<rparr>) \<and>
   status (task1\<lparr> status := [], updatedAt := 1 \<rparr>) = [] \<and>
   status (fromJSON (toJSON (task1\<lparr> status := [], updatedAt := 1 \<rparr>)) (ascii ''id-2'') 50 51) = PENDING \<and>
   status (fromJSON (toJSON (task1\<lparr> status := [], updatedAt := 1 \<rparr>)) (ascii ''id-2'') 50 51)
     \<noteq> status (task1\<lparr> status := [], updatedAt := 1 \<rparr>)"
  by (simp add: run_create_update_empty_status findById_def fromJSON_def toJSON_def Task_new_def
        truthy_def status_distinct)

section \<open>Sequences of calls: the timestamps\<close>

lemma set_update_cases:
  "x \<in> set (AList.update k v al) \<Longrightarrow> x = (k, v) \<or> x \<in> set al"
  by (induction al) (auto split: if_splits)

lemma set_delete_subset: "x \<in> set (AList.delete k al) \<Longrightarrow> x \<in> set al"
  by (simp add: AList.delete_eq)

lemma updateTask_tasks:
  assumes "x \<in> set (snd (updateTask tasks i data now))"
  shows "x \<in> set tasks \<or> (\<exists>t. map_of tasks i = Some t \<and> x = (i, Task_update t data now))"
  using assms
  by (auto simp: updateTask_def repository_update_def findById_def Let_def
      split: option.splits dest: set_update_cases)

lemma createTask_tasks:
  assumes "x \<in> set (snd (createTask tasks data uuid now1 now2))"
  shows "x \<in> set tasks \<or> x = (uuid, Task_new data uuid now1 now2)"
  using assms
  by (auto simp: createTask_def repository_create_def Let_def Task_new_def
      split: option.splits dest: set_update_cases)

lemma deleteTask_tasks:
  assumes "x \<in> set (snd (deleteTask tasks i))"
  shows "x \<in> set tasks"
  using assms
  by (auto simp: deleteTask_def repository_delete_def Let_def
      split: option.splits if_splits dest: set_delete_subset)











section \<open>Numbers: the rounding error of a double\<close>

lemma pow2_powi: "pow2 e = 2 powi e"
  by (simp add: pow2_def power_int_def inverse_eq_divide power_one_over)

lemma pow2_pos: "0 < pow2 e"
  by (simp add: pow2_powi)

lemma pow2_diff: "pow2 (a - b) = pow2 a / pow2 b"
  by (simp add: pow2_powi power_int_diff)

lemma pow2_nat: "0 \<le> e \<Longrightarrow> pow2 e = 2 ^ nat e"
  by (simp add: pow2_def)

lemma pow2_max: "pow2 (max a b) \<le> pow2 a + pow2 b"
  using pow2_pos [of a] pow2_pos [of b] by (simp add: max_def)

lemma ilog2_lower:
  assumes "0 < x"
  shows "pow2 (ilog2 x) \<le> x"
proof -
  obtain p q where pq: "quotient_of x = (p, q)"
    by (cases "quotient_of x")
  then have q: "0 < q" and x: "x = of_int p / of_int q"
    by (simp_all add: quotient_of_denom_pos quotient_of_div)
  have p: "0 < p"
    using assms q x by (simp add: zero_less_divide_iff)
  let ?e = "bitlen p - bitlen q"
  show ?thesis
  proof (cases "pow2 ?e \<le> x")
    case True
    then show ?thesis by (simp add: ilog2_def pq)
  next
    case False
    then have il: "ilog2 x = ?e - 1" by (simp add: ilog2_def pq)
    have bp: "1 \<le> bitlen p" using p by (simp add: bitlen_alt_def)
    have "(2::int) ^ nat (bitlen p - 1) \<le> p"
      using bitlen_bounds [OF p] by simp
    then have "(of_int ((2::int) ^ nat (bitlen p - 1)) :: rat) \<le> of_int p"
      by (simp only: of_int_le_iff)
    then have lo: "pow2 (bitlen p - 1) \<le> of_int p"
      using bp by (simp add: pow2_nat)
    have "q < (2::int) ^ nat (bitlen q)"
      using bitlen_bounds [OF q] by simp
    then have "(of_int q :: rat) \<le> of_int ((2::int) ^ nat (bitlen q))"
      by (simp only: of_int_le_iff)
    then have hi: "of_int q \<le> pow2 (bitlen q)"
      using bitlen_nonneg [of q] by (simp add: pow2_nat)
    have "pow2 (?e - 1) = pow2 (bitlen p - 1) / pow2 (bitlen q)"
      by (simp add: pow2_diff [symmetric] algebra_simps)
    also have "\<dots> \<le> of_int p / of_int q"
      using lo hi q pow2_pos [of "bitlen p - 1"] by (intro frac_le) simp_all
    finally have "pow2 (?e - 1) \<le> x"
      by (simp only: x)
    then show ?thesis
      by (simp only: il)
  qed
qed

lemma ilog2_upper:
  assumes "0 < x"
  shows "x < pow2 (ilog2 x + 1)"
proof -
  obtain p q where pq: "quotient_of x = (p, q)"
    by (cases "quotient_of x")
  then have q: "0 < q" and x: "x = of_int p / of_int q"
    by (simp_all add: quotient_of_denom_pos quotient_of_div)
  have p: "0 < p"
    using assms q x by (simp add: zero_less_divide_iff)
  let ?e = "bitlen p - bitlen q"
  show ?thesis
  proof (cases "pow2 ?e \<le> x")
    case False
    then show ?thesis by (simp add: ilog2_def pq)
  next
    case True
    then have il: "ilog2 x = ?e" by (simp add: ilog2_def pq)
    have bq: "1 \<le> bitlen q" using q by (simp add: bitlen_alt_def)
    have "p < (2::int) ^ nat (bitlen p)"
      using bitlen_bounds [OF p] by simp
    then have "(of_int p :: rat) < of_int ((2::int) ^ nat (bitlen p))"
      by (simp only: of_int_less_iff)
    then have hi: "of_int p < pow2 (bitlen p)"
      using bitlen_nonneg [of p] by (simp add: pow2_nat)
    have "(2::int) ^ nat (bitlen q - 1) \<le> q"
      using bitlen_bounds [OF q] by simp
    then have "(of_int ((2::int) ^ nat (bitlen q - 1)) :: rat) \<le> of_int q"
      by (simp only: of_int_le_iff)
    then have lo: "pow2 (bitlen q - 1) \<le> of_int q"
      using bq by (simp add: pow2_nat)
    have "of_int p / of_int q < pow2 (bitlen p) / pow2 (bitlen q - 1)"
      using hi lo p pow2_pos [of "bitlen q - 1"] by (intro frac_less) simp_all
    also have "\<dots> = pow2 (?e + 1)"
      by (simp add: pow2_diff [symmetric] algebra_simps)
    finally have "x < pow2 (?e + 1)"
      by (simp only: x)
    then show ?thesis
      by (simp only: il)
  qed
qed

lemma roundTiesToEven_error: "\<bar>of_int (roundTiesToEven y) - y\<bar> \<le> 1 / 2"
proof -
  have "of_int \<lfloor>y\<rfloor> \<le> y" "y < of_int \<lfloor>y\<rfloor> + 1"
    by linarith+
  then show ?thesis
    by (auto simp: roundTiesToEven_def Let_def)
qed

lemma roundTiesToEven_nonneg: "0 \<le> y \<Longrightarrow> 0 \<le> roundTiesToEven y"
  by (auto simp: roundTiesToEven_def Let_def)

lemma binary64_nonneg:
  assumes "0 \<le> x"
  shows "0 \<le> binary64 x"
proof (cases "x = 0")
  case True
  then show ?thesis by (simp add: binary64_def)
next
  case False
  then have "0 < x" using assms by simp
  then show ?thesis
    using pow2_pos
    by (simp add: binary64_def Let_def roundTiesToEven_nonneg less_imp_le)
qed

lemma binary64_error:
  assumes "0 \<le> x"
  shows "\<bar>binary64 x - x\<bar> \<le> (x + 1) / 2 ^ 53"
proof (cases "x = 0")
  case True
  then show ?thesis by (simp add: binary64_def)
next
  case False
  then have pos: "0 < x" using assms by simp
  define e where "e = max (ilog2 x - 52) (- 1074)"
  define m where "m = roundTiesToEven (x / pow2 e)"
  have b: "binary64 x = of_int m * pow2 e"
    using pos by (simp add: binary64_def Let_def e_def m_def)
  have pe: "0 < pow2 e" by (rule pow2_pos)
  have "\<bar>of_int m - x / pow2 e\<bar> \<le> 1 / 2"
    unfolding m_def by (rule roundTiesToEven_error)
  then have "\<bar>of_int m - x / pow2 e\<bar> * pow2 e \<le> 1 / 2 * pow2 e"
    using pe by (intro mult_right_mono) simp_all
  moreover have "\<bar>of_int m - x / pow2 e\<bar> * pow2 e = \<bar>(of_int m - x / pow2 e) * pow2 e\<bar>"
    using pe by (simp add: abs_mult)
  moreover have "(of_int m - x / pow2 e) * pow2 e = of_int m * pow2 e - x"
    using pe by (simp add: left_diff_distrib)
  ultimately have err: "\<bar>binary64 x - x\<bar> \<le> pow2 e / 2"
    by (simp add: b)
  have 1: "pow2 e \<le> pow2 (ilog2 x - 52) + pow2 (- 1074)"
    unfolding e_def by (rule pow2_max)
  have 2: "pow2 (ilog2 x - 52) = pow2 (ilog2 x) / 2 ^ 52"
    by (simp add: pow2_diff pow2_nat)
  have 3: "pow2 (ilog2 x) \<le> x"
    using pos by (rule ilog2_lower)
  have "(2::rat) ^ 52 \<le> 2 ^ 1074"
    by (rule power_increasing) simp_all
  then have "1 / (2::rat) ^ 1074 \<le> 1 / 2 ^ 52"
    by (intro frac_le) simp_all
  moreover have "pow2 (- 1074) = 1 / 2 ^ 1074"
    by (simp only: pow2_def) simp
  ultimately have 4: "pow2 (- 1074) \<le> 1 / 2 ^ 52"
    by (simp only:)
  have "pow2 (ilog2 x) / 2 ^ 52 \<le> x / 2 ^ 52"
    using 3 by (intro divide_right_mono) simp_all
  then have "pow2 e \<le> x / 2 ^ 52 + 1 / 2 ^ 52"
    using 1 2 4 by linarith
  then have "pow2 e / 2 \<le> (x / 2 ^ 52 + 1 / 2 ^ 52) / 2"
    by (intro divide_right_mono) simp_all
  also have "\<dots> = (x + 1) / 2 ^ 53"
    by (simp add: add_divide_distrib)
  finally show ?thesis
    using err by linarith
qed


lemma binary64_step:
  assumes "0 \<le> x" and "x \<le> b"
  shows "0 \<le> binary64 x \<and> \<bar>binary64 x - x\<bar> \<le> (b + 1) * (1 / 2 ^ 53)"
proof -
  have "\<bar>binary64 x - x\<bar> \<le> (x + 1) / 2 ^ 53"
    using assms(1) by (rule binary64_error)
  also have "\<dots> = (x + 1) * (1 / 2 ^ 53)"
    by simp
  also have "\<dots> \<le> (b + 1) * (1 / 2 ^ 53)"
    using assms(2) by (intro mult_right_mono) simp_all
  finally show ?thesis
    using binary64_nonneg [OF assms(1)] by simp
qed

lemma Math_round_error: "\<bar>Math_round x - x\<bar> \<le> 1 / 2"
proof -
  have "of_int \<lfloor>x + 1 / 2\<rfloor> \<le> x + 1 / 2" "x + 1 / 2 < of_int \<lfloor>x + 1 / 2\<rfloor> + 1"
    by linarith+
  then have "\<bar>of_int \<lfloor>x + 1 / 2\<rfloor> - x\<bar> \<le> 1 / 2"
    by linarith
  then show ?thesis
    by (simp only: Math_round_def)
qed

lemma Math_round_nonneg: "0 \<le> x \<Longrightarrow> 0 \<le> Math_round x"
  by (simp add: Math_round_def)

lemma completionRate_error:
  fixes d t :: nat
  assumes "0 < t" and "d \<le> t"
  shows "\<bar>js_div (Math_round (js_mul (js_mul (js_div (of_nat d) (of_nat t)) 100) 100)) 100
           - of_nat d / of_nat t * 100\<bar> \<le> 1 / 200 + 1 / 10 ^ 12"
proof -
  define u :: rat where "u = 1 / 2 ^ 53"
  define x0 :: rat where "x0 = of_nat d / of_nat t"
  define q where "q = binary64 x0"
  define p where "p = binary64 (q * 100)"
  define r where "r = binary64 (p * 100)"
  define n where "n = Math_round r"
  define c where "c = binary64 (n / 100)"
  have u: "0 \<le> u" "1000 * u \<le> 1 / 10 ^ 12" "u \<le> 1 / 1000"
    by (simp_all add: u_def)
  have x0: "0 \<le> x0" "x0 \<le> 1"
    using assms by (simp_all add: x0_def)
  have q: "0 \<le> q" "\<bar>q - x0\<bar> \<le> 2 * u"
    using binary64_step [OF x0] by (simp_all add: q_def u_def)
  then have q2: "q * 100 \<le> 200"
    using x0 u by linarith
  have p: "0 \<le> p" "\<bar>p - q * 100\<bar> \<le> 201 * u"
    using binary64_step [of "q * 100" 200] q q2 by (simp_all add: p_def u_def)
  then have p2: "p * 100 \<le> 20100"
    using q2 u by linarith
  have r: "0 \<le> r" "\<bar>r - p * 100\<bar> \<le> 20101 * u"
    using binary64_step [of "p * 100" 20100] p p2 by (simp_all add: r_def u_def)
  have n: "0 \<le> n" "\<bar>n - r\<bar> \<le> 1 / 2"
    using r(1) by (simp_all only: n_def Math_round_nonneg Math_round_error)
  then have n2: "n / 100 \<le> 202"
    using r p2 u by linarith
  have c: "\<bar>c - n / 100\<bar> \<le> 203 * u"
    using binary64_step [of "n / 100" 202] n n2 by (simp_all add: c_def u_def)
  have "\<bar>c - x0 * 100\<bar> \<le> 1 / 200 + 1000 * u"
    using c n r(2) p(2) q(2) by linarith
  then have "\<bar>c - x0 * 100\<bar> \<le> 1 / 200 + 1 / 10 ^ 12"
    using u(2) by linarith
  then show ?thesis
    by (simp add: c_def n_def r_def p_def q_def x0_def js_mul_def js_div_def)
qed


section \<open>Statistics: the completion rate\<close>

lemma countByStatus_le_count: "countByStatus tasks st \<le> count tasks"
  by (simp add: countByStatus_def count_def findByStatus_def findAll_def)

lemma counts_by_statuses:
  "count tasks = length (map status (findAll tasks))"
  "countByStatus tasks st = length (filter (\<lambda>s. s = st) (map status (findAll tasks)))"
  by (simp_all add: count_def countByStatus_def findByStatus_def findAll_def filter_map comp_def)

lemma completionRate_none: "js_div (Math_round (js_mul 0 100)) 100 = 0"
  by code_simp

lemma completionRate_1_of_4:
  "js_div (Math_round (js_mul (js_mul (js_div 1 4) 100) 100)) 100 = 25"
  by code_simp

lemma completionRate_23_of_160:
  "js_div (Math_round (js_mul (js_mul (js_div 23 160) 100) 100)) 100 = binary64 (1437 / 100)"
  by code_simp

lemma binary64_1437_1438:
  "binary64 (1437 / 100) = 8089590830664253 / 562949953421312"
  "binary64 (1438 / 100) = 8095220330198467 / 562949953421312"
  by code_simp+

lemma getStatistics_completionRate:
  "completionRate (getStatistics tasks) =
     (if 0 < count tasks
      then js_div (Math_round (js_mul (js_mul (js_div (of_nat (countByStatus tasks DONE)) (of_nat (count tasks))) 100) 100)) 100
      else 0)"
  by (simp add: getStatistics_def Let_def completionRate_none)

text \<open>
  Claim C5, amended. For every repository, \<open>getStatistics\<close> returns
  \<open>total = count()\<close> and \<open>pending\<close>, \<open>inProgress\<close>, \<open>done\<close> the
  \<open>countByStatus\<close> of each status; \<open>completionRate\<close> is 0 when \<open>total = 0\<close>,
  and when \<open>total > 0\<close> it is \<open>Math.round(((done / total) * 100) * 100) / 100\<close>
  in double arithmetic, which lies within \<open>1 / 200 + 1 / 10 ^ 12\<close> of
  \<open>done / total * 100\<close>. For four tasks with statuses pending, pending, in progress
  and done the result is \<open>{total: 4, pending: 2, inProgress: 1, done: 1,
  completionRate: 25}\<close>, and for no task all five fields are 0.
\<close>

theorem getStatistics_result:
  "total (getStatistics tasks) = count tasks \<and>
   pending (getStatistics tasks) = countByStatus tasks PENDING \<and>
   inProgress (getStatistics tasks) = countByStatus tasks IN_PROGRESS \<and>
   done (getStatistics tasks) = countByStatus tasks DONE \<and>
   (count tasks = 0 \<longrightarrow> completionRate (getStatistics tasks) = 0) \<and>
   (0 < count tasks \<longrightarrow>
      completionRate (getStatistics tasks) =
        js_div (Math_round (js_mul (js_mul
          (js_div (of_nat (countByStatus tasks DONE)) (of_nat (count tasks))) 100) 100)) 100 \<and>
      \<bar>completionRate (getStatistics tasks)
         - of_nat (countByStatus tasks DONE) / of_nat (count tasks) * 100\<bar> \<le> 1 / 200 + 1 / 10 ^ 12) \<and>
   (map status (findAll tasks) = [PENDING, PENDING, IN_PROGRESS, DONE] \<longrightarrow>
      getStatistics tasks =
        \<lparr> total = 4, pending = 2, inProgress = 1, done = 1, completionRate = 25 \<rparr>) \<and>
   (tasks = [] \<longrightarrow>
      getStatistics tasks =
        \<lparr> total = 0, pending = 0, inProgress = 0, done = 0, completionRate = 0 \<rparr>)"
proof (intro conjI impI)
  show "total (getStatistics tasks) = count tasks"
    and "pending (getStatistics tasks) = countByStatus tasks PENDING"
    and "inProgress (getStatistics tasks) = countByStatus tasks IN_PROGRESS"
    and "done (getStatistics tasks) = countByStatus tasks DONE"
    by (simp_all add: getStatistics_counts)
next
  assume "count tasks = 0"
  then show "completionRate (getStatistics tasks) = 0"
    by (simp add: getStatistics_completionRate)
next
  assume pos: "0 < count tasks"
  then show eq: "completionRate (getStatistics tasks) =
        js_div (Math_round (js_mul (js_mul
          (js_div (of_nat (countByStatus tasks DONE)) (of_nat (count tasks))) 100) 100)) 100"
    by (simp add: getStatistics_completionRate)
  show "\<bar>completionRate (getStatistics tasks)
         - of_nat (countByStatus tasks DONE) / of_nat (count tasks) * 100\<bar> \<le> 1 / 200 + 1 / 10 ^ 12"
    unfolding eq by (rule completionRate_error [OF pos countByStatus_le_count])
next
  assume st: "map status (findAll tasks) = [PENDING, PENDING, IN_PROGRESS, DONE]"
  have "count tasks = 4" "countByStatus tasks PENDING = 2" "countByStatus tasks IN_PROGRESS = 1"
    "countByStatus tasks DONE = 1"
    using status_distinct by (simp_all add: counts_by_statuses st)
  then show "getStatistics tasks =
        \<lparr> total = 4, pending = 2, inProgress = 1, done = 1, completionRate = 25 \<rparr>"
    by (simp add: getStatistics_def Let_def completionRate_1_of_4)
next
  assume "tasks = []"
  then show "getStatistics tasks =
        \<lparr> total = 0, pending = 0, inProgress = 0, done = 0, completionRate = 0 \<rparr>"
    by (simp add: getStatistics_def Let_def count_def countByStatus_def findByStatus_def
          findAll_def completionRate_none)
qed

text \<open>The theorem at four tasks with these statuses, and at the empty repository.\<close>

theorem getStatistics_result_witness:
  "map status (findAll four_tasks) = [PENDING, PENDING, IN_PROGRESS, DONE] \<and>
   0 < count four_tasks \<and>
   getStatistics four_tasks =
     \<lparr> total = 4, pending = 2, inProgress = 1, done = 1, completionRate = 25 \<rparr> \<and>
   \<bar>completionRate (getStatistics four_tasks)
      - of_nat (countByStatus four_tasks DONE) / of_nat (count four_tasks) * 100\<bar> \<le> 1 / 200 + 1 / 10 ^ 12 \<and>
   count [] = 0 \<and>
   getStatistics [] = \<lparr> total = 0, pending = 0, inProgress = 0, done = 0, completionRate = 0 \<rparr>"
proof -
  have a: "map status (findAll four_tasks) = [PENDING, PENDING, IN_PROGRESS, DONE]"
    by (rule four_tasks_statuses)
  have b: "0 < count four_tasks"
    by (simp add: count_def four_tasks_def)
  have c: "count [] = 0"
    by (simp add: count_def)
  have d: "getStatistics four_tasks =
     \<lparr> total = 4, pending = 2, inProgress = 1, done = 1, completionRate = 25 \<rparr>"
    using a getStatistics_result [of four_tasks] by (elim conjE) (erule mp)
  have e: "\<bar>completionRate (getStatistics four_tasks)
      - of_nat (countByStatus four_tasks DONE) / of_nat (count four_tasks) * 100\<bar> \<le> 1 / 200 + 1 / 10 ^ 12"
    using b getStatistics_result [of four_tasks] by (elim conjE) (drule (1) mp, erule conjunct2)
  have f: "getStatistics [] = \<lparr> total = 0, pending = 0, inProgress = 0, done = 0, completionRate = 0 \<rparr>"
    using getStatistics_result [of "[]"] by (elim conjE) (erule mp, rule refl)
  show ?thesis
    using a b c d e f by (intro conjI)
qed

lemma length_filter_less_upt: "length (filter (\<lambda>n. n < k) [0..<m]) = min k m"
  by (induction m) auto

lemma tasks_160_counts: "count tasks_160 = 160" "countByStatus tasks_160 DONE = 23"
proof -
  show "count tasks_160 = 160"
    by (simp add: count_def tasks_160_def)
  have "countByStatus tasks_160 DONE = length (filter (\<lambda>n. status (numbered_task n) = DONE) [0..<160])"
    by (simp add: countByStatus_def findByStatus_def findAll_def tasks_160_def filter_map comp_def)
  also have "(\<lambda>n. status (numbered_task n) = DONE) = (\<lambda>n. n < 23)"
    using status_distinct by (auto simp: numbered_task_def fun_eq_iff)
  finally show "countByStatus tasks_160 DONE = 23"
    by (simp add: length_filter_less_upt)
qed

text \<open>
  Claim C5 as stated fails: with 160 tasks of which 23 are done, \<open>done / total * 100\<close>
  is 14.375, which rounds half up to 14.38; the doubles give
  \<open>(23 / 160) * 100 * 100 = 1437.4999999999998\<close>, and the code returns 14.37.
\<close>

theorem completionRate_tie_counterexample:
  "count tasks_160 = 160 \<and> countByStatus tasks_160 DONE = 23 \<and>
   round2_half_up (23 / 160 * 100) = 1438 / 100 \<and>
   completionRate (getStatistics tasks_160) = binary64 (1437 / 100) \<and>
   completionRate (getStatistics tasks_160) \<noteq> binary64 (1438 / 100) \<and>
   completionRate (getStatistics tasks_160) \<noteq> round2_half_up (23 / 160 * 100)"
proof -
  have r: "round2_half_up (23 / 160 * 100) = 1438 / 100"
    by (simp add: round2_half_up_def)
  have c: "completionRate (getStatistics tasks_160) = binary64 (1437 / 100)"
    by (simp add: getStatistics_completionRate tasks_160_counts completionRate_23_of_160)
  show ?thesis
    by (simp only: tasks_160_counts r c binary64_1437_1438) simp
qed

section \<open>Sequences of calls: what every call preserves\<close>

text \<open>
  The keys of the repository stay distinct, so the length of the association list is
  the size of the map.
\<close>

lemma perform_distinct:
  "distinct (map fst tasks) \<Longrightarrow> distinct (map fst (perform tasks op))"
  by (cases op)
     (auto simp: createTask_def repository_create_def updateTask_def repository_update_def
        deleteTask_def repository_delete_def markTaskAsDone_def markTaskAsInProgress_def
        markTaskAsPending_def Let_def AList.distinct_update AList.distinct_delete
        split: option.splits)

lemma run_distinct: "distinct (map fst (run [] ops))"
  by (induction ops rule: rev_induct) (simp_all add: run_def perform_distinct)

text \<open>
  As long as no \<open>updateTask\<close> call passes the empty string as status, the status of
  every stored task is one of the three enumerated values.
\<close>

lemma Task_new_status_valid:
  "validateCreateData data = None \<Longrightarrow> isValidStatus (status (Task_new data uuid now1 now2))"
  by (auto simp: validateCreateData_def Task_new_def isValidStatus_iff split: if_splits)

lemma Task_update_status_valid:
  assumes "validateUpdateData data = None" and "TaskDTO.status data \<noteq> Some []"
    and "isValidStatus (status t)"
  shows "isValidStatus (status (Task_update t data now))"
proof (cases "TaskDTO.status data")
  case None
  then show ?thesis
    using assms(3) by (simp add: Task_update_def Let_def split: option.splits)
next
  case (Some s)
  then have "truthy (TaskDTO.status data)"
    using assms(2) by (simp add: truthy_def)
  then have "isValidStatus s"
    using assms(1) Some by (auto simp: validateUpdateData_def split: if_splits)
  then show ?thesis
    using Some by (simp add: Task_update_def Let_def split: option.splits)
qed

lemma updateTask_status_valid:
  assumes "\<forall>x\<in>set tasks. isValidStatus (status (snd x))" and "TaskDTO.status data \<noteq> Some []"
    and "x \<in> set (snd (updateTask tasks i data now))"
  shows "isValidStatus (status (snd x))"
proof (cases "validateId i = None \<and> validateUpdateData data = None")
  case False
  then have "snd (updateTask tasks i data now) = tasks"
    by (auto simp: updateTask_def split: option.splits)
  then show ?thesis using assms(1,3) by simp
next
  case True
  from updateTask_tasks [OF assms(3)]
  consider "x \<in> set tasks" | t where "map_of tasks i = Some t" "x = (i, Task_update t data now)"
    by blast
  then show ?thesis
  proof cases
    case 1
    then show ?thesis using assms(1) by simp
  next
    case 2
    have "(i, t) \<in> set tasks"
      using 2(1) by (rule map_of_SomeD)
    then have "isValidStatus (status t)"
      using assms(1) by auto
    then show ?thesis
      using 2 True assms(2) by (simp add: Task_update_status_valid)
  qed
qed

lemma perform_status_valid:
  assumes inv: "\<forall>x\<in>set tasks. isValidStatus (status (snd x))" and ne: "status_not_empty op"
    and x: "x \<in> set (perform tasks op)"
  shows "isValidStatus (status (snd x))"
proof (cases op)
  case (CreateTask data uuid now1 now2)
  show ?thesis
  proof (cases "validateCreateData data")
    case None
    then show ?thesis
      using x inv CreateTask
      by (auto dest!: createTask_tasks simp: Task_new_status_valid)
  next
    case (Some e)
    then show ?thesis
      using x inv CreateTask by (simp add: createTask_def)
  qed
next
  case (UpdateTask i data now)
  then show ?thesis
    using updateTask_status_valid [OF inv, of data x i now] ne x by (simp add: status_not_empty_def)
next
  case (MarkTaskAsDone i now)
  then show ?thesis
    using updateTask_status_valid [OF inv, of "\<lparr> TaskDTO.title = None, TaskDTO.description = None,
            TaskDTO.status = Some DONE \<rparr>" x i now] x status_distinct
    by (simp add: markTaskAsDone_def)
next
  case (MarkTaskAsInProgress i now)
  then show ?thesis
    using updateTask_status_valid [OF inv, of "\<lparr> TaskDTO.title = None, TaskDTO.description = None,
            TaskDTO.status = Some IN_PROGRESS \<rparr>" x i now] x status_distinct
    by (simp add: markTaskAsInProgress_def)
next
  case (MarkTaskAsPending i now)
  then show ?thesis
    using updateTask_status_valid [OF inv, of "\<lparr> TaskDTO.title = None, TaskDTO.description = None,
            TaskDTO.status = Some PENDING \<rparr>" x i now] x status_distinct
    by (simp add: markTaskAsPending_def)
next
  case (DeleteTask i)
  then show ?thesis
    using x inv by (auto dest!: deleteTask_tasks)
qed

lemma run_status_valid:
  "\<forall>op\<in>set ops. status_not_empty op \<Longrightarrow>
   \<forall>x\<in>set (run [] ops). isValidStatus (status (snd x))"
proof (induction ops rule: rev_induct)
  case Nil
  then show ?case by (simp add: run_def)
next
  case (snoc op ops)
  then have inv: "\<forall>x\<in>set (run [] ops). isValidStatus (status (snd x))" and ne: "status_not_empty op"
    by simp_all
  have "run [] (ops @ [op]) = perform (run [] ops) op"
    by (simp add: run_def)
  then show ?case
    using perform_status_valid [OF inv ne] by simp
qed

text \<open>The sample repositories have distinct keys.\<close>

lemma four_tasks_distinct: "distinct (map fst four_tasks)"
  by (simp add: four_tasks_def ascii_def)

lemma tasks_160_distinct: "distinct (map fst tasks_160)"
proof -
  have "inj_on (\<lambda>n. id' (numbered_task n)) {0..<160}"
  proof (rule inj_onI)
    fix m n :: nat
    assume "m \<in> {0..<160}" "n \<in> {0..<160}" "id' (numbered_task m) = id' (numbered_task n)"
    then have "(of_nat m :: 16 word) = of_nat n" "m < 2 ^ 16" "n < 2 ^ 16"
      by (simp_all add: numbered_task_def)
    then show "m = n"
      by (simp add: word_of_nat_eq_iff take_bit_nat_eq_self)
  qed
  then show ?thesis
    by (simp add: tasks_160_def comp_def distinct_map)
qed

end
